theory Spec2Isabelle
  imports Main
begin

section \<open>floatmoneylint: the analyzer of \<^verbatim>\<open>lib/floatmoneylint.go\<close>\<close>

text \<open>
  The analyzer walks the syntax trees of a Go package with \<^verbatim>\<open>ast.Inspect\<close> and reports
  float-typed declarations whose names contain an entry of the configured list
  \<^verbatim>\<open>Settings.Names\<close>. The development below embeds the name matcher, the type
  resolution, the callback handed to \<^verbatim>\<open>ast.Inspect\<close> and the traversal itself.
\<close>

subsection \<open>Strings\<close>

text \<open>
  A Go string is a sequence of bytes, here a \<^typ>\<open>string\<close>. \<^verbatim>\<open>strings.ToLower\<close> is
  modelled on ASCII text, where it adds 32 to the bytes \<^verbatim>\<open>'A'\<close> .. \<^verbatim>\<open>'Z'\<close> and keeps
  every other byte; the Unicode case mapping that Go applies to multi-byte characters
  is outside the model.
\<close>

definition lowerByte :: "char \<Rightarrow> char" where
  "lowerByte c =
     (if (65::nat) \<le> of_char c \<and> of_char c \<le> (90::nat)
      then char_of (of_char c + (32::nat)) else c)"

definition ToLower :: "string \<Rightarrow> string" where
  "ToLower s = map lowerByte s"

text \<open>\<^verbatim>\<open>strings.HasPrefix(s, prefix)\<close>.\<close>

fun HasPrefix :: "string \<Rightarrow> string \<Rightarrow> bool" where
  "HasPrefix s [] = True"
| "HasPrefix [] (p # ps) = False"
| "HasPrefix (c # cs) (p # ps) = (c = p \<and> HasPrefix cs ps)"

text \<open>
  \<^verbatim>\<open>strings.Contains(s, substr)\<close>, that is \<^verbatim>\<open>strings.Index(s, substr) >= 0\<close>: some
  position of \<^verbatim>\<open>s\<close>, its end included, starts an occurrence of \<^verbatim>\<open>substr\<close>.
\<close>

fun Contains :: "string \<Rightarrow> string \<Rightarrow> bool" where
  "Contains [] substr = HasPrefix [] substr"
| "Contains (c # cs) substr = (HasPrefix (c # cs) substr \<or> Contains cs substr)"

subsection \<open>The name matcher\<close>

text \<open>
  \<^verbatim>\<open>
  func isSuspicious(target []string, name string) bool {
      for _, t := range target {
          if strings.Contains(strings.ToLower(name), strings.ToLower(t)) {
              return true
          }
      }
      return false
  }
  \<close>
\<close>

fun isSuspicious :: "string list \<Rightarrow> string \<Rightarrow> bool" where
  "isSuspicious [] name = False"
| "isSuspicious (t # target) name =
     (if Contains (ToLower name) (ToLower t) then True else isSuspicious target name)"

text \<open>
  \<^verbatim>\<open>
  func intersects(target []string, search []string) bool {
      for _, s := range search {
          if isSuspicious(target, s) {
              return true
          }
      }
      return false
  }
  \<close>
\<close>

fun intersects :: "string list \<Rightarrow> string list \<Rightarrow> bool" where
  "intersects target [] = False"
| "intersects target (s # search) =
     (if isSuspicious target s then True else intersects target search)"

subsection \<open>Syntax trees\<close>

text \<open>
  The part of \<^verbatim>\<open>go/ast\<close> and \<^verbatim>\<open>go/token\<close> that the analyzer reads. A position
  (\<^verbatim>\<open>token.Pos\<close>) is an integer. Of the tokens, the four that a \<^verbatim>\<open>GenDecl\<close>
  carries and the five kinds of a basic literal are named (\<open>Tok_VAR\<close> is
  \<^verbatim>\<open>token.VAR\<close>).
\<close>

datatype token =
    Tok_IMPORT | Tok_CONST | Tok_TYPE | Tok_VAR
  | Tok_INT | Tok_FLOAT | Tok_IMAG | Tok_CHAR | Tok_STRING

datatype ident = Ident (NamePos: int) (Name: string)

datatype basic_lit = BasicLit (ValuePos: int) (Kind: token) (Value: string)

text \<open>
  Expressions, fields, specs, declarations and the remaining nodes are mutually
  recursive. The fields follow \<^verbatim>\<open>go/ast\<close>; a field that \<^verbatim>\<open>ast.Walk\<close> tests against
  \<^verbatim>\<open>nil\<close> before descending is an \<open>option\<close>, and so is \<^verbatim>\<open>FuncDecl.Type\<close>, which the
  analyzer tests itself. A \<^verbatim>\<open>*ast.FieldList\<close> is the list of its fields. Comment
  groups are left out: they contain only comments, for which the analyzer has no case.

  \<^item> \<open>ArrayType lbrack len elt\<close> covers arrays and slices, as \<^verbatim>\<open>ast.ArrayType\<close> does.
  \<^item> \<open>StructType fields end\<close>, \<open>FuncType end typeParams params results\<close> and
    \<open>OtherExpr end children\<close> carry the value of their \<^verbatim>\<open>End()\<close> method.
  \<^item> \<open>OtherExpr\<close> and \<open>OtherNode\<close> stand for every node kind that is not named here
    (statements, the other expressions), with the children that \<^verbatim>\<open>ast.Walk\<close> visits,
    in its order.
\<close>

datatype expr =
    IdentExpr ident
  | BasicLitExpr basic_lit
  | ArrayType int "expr option" expr
  | StructType "field list" int
  | FuncTypeExpr func_type
  | OtherExpr int "node list"
and field =
    Field "ident list" "expr option" "basic_lit option"
and func_type =
    FuncType int "field list option" "field list option" "field list option"
and spec =
    ImportSpec "ident option" basic_lit
  | ValueSpec "ident list" "expr option" "expr list"
  | TypeSpec ident "field list option" expr
and decl =
    BadDecl
  | GenDecl token "spec list"
  | FuncDecl "field list option" ident "func_type option" "node option"
and node =
    ExprNode expr
  | FieldNode field
  | FieldListNode "field list"
  | SpecNode spec
  | DeclNode decl
  | OtherNode "node list"

text \<open>An \<^verbatim>\<open>*ast.File\<close>: the package name and the top-level declarations.\<close>

datatype ast_file = File ident "decl list"

text \<open>\<^verbatim>\<open>Pos()\<close> and \<^verbatim>\<open>End()\<close> of identifiers and basic literals.\<close>

definition identPos :: "ident \<Rightarrow> int" where
  "identPos x = NamePos x"

definition identEnd :: "ident \<Rightarrow> int" where
  "identEnd x = NamePos x + int (length (Name x))"

definition litPos :: "basic_lit \<Rightarrow> int" where
  "litPos x = ValuePos x"

definition litEnd :: "basic_lit \<Rightarrow> int" where
  "litEnd x = ValuePos x + int (length (Value x))"

text \<open>
  \<^verbatim>\<open>End()\<close> of an expression. For an array type it is the end of the element type:
  \<^verbatim>\<open>func (x *ArrayType) End() token.Pos { return x.Elt.End() }\<close>.
\<close>

fun exprEnd :: "expr \<Rightarrow> int" where
  "exprEnd (IdentExpr x) = identEnd x"
| "exprEnd (BasicLitExpr x) = litEnd x"
| "exprEnd (ArrayType lbrack len elt) = exprEnd elt"
| "exprEnd (StructType fieldList e) = e"
| "exprEnd (FuncTypeExpr (FuncType e tps ps rs)) = e"
| "exprEnd (OtherExpr e children) = e"

subsection \<open>Type resolution\<close>

text \<open>
  \<^verbatim>\<open>
  func isFloatTypeName(typ string) bool {
      return slices.Contains[[]string, string]([]string{"float32", "float64"}, typ)
  }
  \<close>
\<close>

definition isFloatTypeName :: "string \<Rightarrow> bool" where
  "isFloatTypeName typ = List.member [''float32'', ''float64''] typ"

text \<open>
  \<^verbatim>\<open>
  func getInnerFloat(typ ast.Expr) *ast.Ident {
      switch typ := typ.(type) {
      case *ast.Ident:
          if isFloatTypeName(typ.Name) {
              return typ
          }
      case *ast.ArrayType:
          if eltTyp, ok := typ.Elt.(*ast.Ident); ok {
              if isFloatTypeName(eltTyp.Name) {
                  return eltTyp
              }
          }
      }
      return nil
  }
  \<close>
  The argument is an interface value and may be \<^verbatim>\<open>nil\<close>, which reaches no case.
\<close>

fun getInnerFloat :: "expr option \<Rightarrow> ident option" where
  "getInnerFloat (Some (IdentExpr typ)) =
     (if isFloatTypeName (Name typ) then Some typ else None)"
| "getInnerFloat (Some (ArrayType lbrack len (IdentExpr eltTyp))) =
     (if isFloatTypeName (Name eltTyp) then Some eltTyp else None)"
| "getInnerFloat typ = None"

text \<open>
  \<^verbatim>\<open>strconv.ParseInt\<close> and \<^verbatim>\<open>strconv.ParseFloat\<close> belong to the Go standard library.
  The analyzer only asks whether they return an error, so the model takes the two
  answers as parameters: \<open>ParseInt_ok sc s\<close> says that \<^verbatim>\<open>strconv.ParseInt(s, 0, 64)\<close>
  returns a \<^verbatim>\<open>nil\<close> error, \<open>ParseFloat_ok sc s\<close> that \<^verbatim>\<open>strconv.ParseFloat(s, 64)\<close> does.
\<close>

record strconv =
  ParseInt_ok :: "string \<Rightarrow> bool"
  ParseFloat_ok :: "string \<Rightarrow> bool"

text \<open>
  \<^verbatim>\<open>
  func isFloatExpr(expr ast.Expr) bool {
      switch expr := expr.(type) {
      case *ast.BasicLit:
          _, err := strconv.ParseInt(expr.Value, 0, 64)
          if err == nil {
              return false
          }
          _, err = strconv.ParseFloat(expr.Value, 64)
          if err == nil {
              return true
          }
          return false
      default:
          return false
      }
  }
  \<close>
\<close>

fun isFloatExpr :: "strconv \<Rightarrow> expr \<Rightarrow> bool" where
  "isFloatExpr sc (BasicLitExpr expr) =
     (if ParseInt_ok sc (Value expr) then False
      else if ParseFloat_ok sc (Value expr) then True
      else False)"
| "isFloatExpr sc expr = False"

subsection \<open>Diagnostics\<close>

text \<open>
  An \<^verbatim>\<open>analysis.Diagnostic\<close> as the analyzer fills it (\<^verbatim>\<open>Related\<close> is always \<^verbatim>\<open>nil\<close>).
  The messages are the results of the \<^verbatim>\<open>fmt.Sprintf\<close> calls of \<^verbatim>\<open>run\<close>, one function
  for each call.
\<close>

record diagnostic =
  Pos :: int
  End :: int
  Category :: string
  Message :: string

definition useDecimal :: string where
  "useDecimal = ''use https://github.com/shopspring/decimal instead''"

definition declTypeMessage :: "string \<Rightarrow> string" where
  "declTypeMessage name =
     ''a declaration with a suspicious money-related name has '' @ name @ '' type. ''
     @ useDecimal"

definition declValueMessage :: "string \<Rightarrow> string" where
  "declValueMessage v =
     ''a declaration with a suspicious money-related name has a float value of ''
     @ [CHR 0x22] @ v @ [CHR 0x22] @ ''. '' @ useDecimal"

definition aliasMessage :: "string \<Rightarrow> string" where
  "aliasMessage name =
     ''a type with a suspicious money-related name is an alias to '' @ name @ ''. ''
     @ useDecimal"

definition structFieldMessage :: "string \<Rightarrow> string" where
  "structFieldMessage name =
     ''a struct type with a suspicious money-related name has a field of '' @ name
     @ '' type. '' @ useDecimal"

definition parameterMessage :: "string \<Rightarrow> string" where
  "parameterMessage name =
     ''a function with a suspicious money-related name has a parameter of '' @ name
     @ '' type. '' @ useDecimal"

definition returnValueMessage :: "string \<Rightarrow> string" where
  "returnValueMessage name =
     ''a function with a suspicious money-related name has a return value of '' @ name
     @ '' type. '' @ useDecimal"

definition fieldMessage :: "string \<Rightarrow> string" where
  "fieldMessage name =
     ''a field with a suspicious money-related name has '' @ name @ '' type. ''
     @ useDecimal"

text \<open>
  Every report but one is made at an identifier \<open>typ\<close> with
  \<^verbatim>\<open>Pos: typ.Pos(), End: typ.End()\<close> and a message built from \<^verbatim>\<open>typ.Name\<close>.
\<close>

definition reportIdent :: "(string \<Rightarrow> string) \<Rightarrow> ident \<Rightarrow> diagnostic" where
  "reportIdent message typ =
     \<lparr>Pos = identPos typ, End = identEnd typ, Category = ''floatmoney'',
      Message = message (Name typ)\<rparr>"

subsection \<open>The callback of \<^verbatim>\<open>ast.Inspect\<close>\<close>

text \<open>
  \<^verbatim>\<open>Settings\<close> holds the configured names. A run-time panic of the callback is a
  value: a failed type assertion \<^verbatim>\<open>spec.(*ast.ValueSpec)\<close> or \<^verbatim>\<open>spec.(*ast.TypeSpec)\<close>,
  or the selection of a field through a \<^verbatim>\<open>nil\<close> pointer.
\<close>

record Settings =
  Names :: "string list"

datatype panic = InterfaceConversion | NilPointerDereference

text \<open>
  The result of a loop body, and of a loop: a panic, or the diagnostics reported
  together with a flag that says whether the callback executed \<^verbatim>\<open>return true\<close> there.
  \<open>forEach\<close> is \<^verbatim>\<open>for _, x := range xs { body }\<close>: it stops at a panic and at a
  \<^verbatim>\<open>return\<close>.
\<close>

type_synonym outcome = "panic + diagnostic list \<times> bool"

fun forEach :: "('a \<Rightarrow> outcome) \<Rightarrow> 'a list \<Rightarrow> outcome" where
  "forEach body [] = Inr ([], False)"
| "forEach body (x # xs) =
     (case body x of
        Inl p \<Rightarrow> Inl p
      | Inr (ds, True) \<Rightarrow> Inr (ds, True)
      | Inr (ds, False) \<Rightarrow>
          (case forEach body xs of
             Inl p \<Rightarrow> Inl p
           | Inr (ds', returned) \<Rightarrow> Inr (ds @ ds', returned)))"

text \<open>
  The inner loop of a value spec,
  \<^verbatim>\<open>for _, value := range spec.Values { if isFloatExpr(value) { expr = value; break } }\<close>:
  the first initializer that is a float literal, if any.
\<close>

fun firstFloatExpr :: "strconv \<Rightarrow> expr list \<Rightarrow> expr option" where
  "firstFloatExpr sc [] = None"
| "firstFloatExpr sc (v # values) =
     (if isFloatExpr sc v then Some v else firstFloatExpr sc values)"

text \<open>The \<^verbatim>\<open>switch expr := expr.(type)\<close> that reports a value spec.\<close>

fun reportValue :: "expr \<Rightarrow> diagnostic list" where
  "reportValue (IdentExpr expr) = [reportIdent declTypeMessage expr]"
| "reportValue (BasicLitExpr expr) =
     [\<lparr>Pos = litPos expr, End = litEnd expr, Category = ''floatmoney'',
       Message = declValueMessage (Value expr)\<rparr>]"
| "reportValue expr = []"

text \<open>The body of the loop over the specs of a \<^verbatim>\<open>var\<close> or \<^verbatim>\<open>const\<close> declaration.\<close>

fun valueSpecBody :: "Settings \<Rightarrow> strconv \<Rightarrow> spec \<Rightarrow> outcome" where
  "valueSpecBody settings sc (ValueSpec specNames typ values) =
     (case (case getInnerFloat typ of
              Some ident \<Rightarrow> Some (IdentExpr ident)
            | None \<Rightarrow> firstFloatExpr sc values) of
        None \<Rightarrow> Inr ([], True)
      | Some expr \<Rightarrow>
          (if intersects (Names settings) (map Name specNames)
           then Inr (reportValue expr, False)
           else Inr ([], False)))"
| "valueSpecBody settings sc spec = Inl InterfaceConversion"

text \<open>The body of the loop over the fields of a struct type with a suspicious name.\<close>

fun structFieldBody :: "field \<Rightarrow> outcome" where
  "structFieldBody (Field fieldNames fieldType tag) =
     (case getInnerFloat fieldType of
        None \<Rightarrow> Inr ([], True)
      | Some typ \<Rightarrow> Inr ([reportIdent structFieldMessage typ], False))"

text \<open>
  The body of the loop over the specs of a \<^verbatim>\<open>type\<close> declaration. In the case of an
  array type the source tests \<^verbatim>\<open>typ != nil\<close>, where \<^verbatim>\<open>typ\<close> is the array type itself,
  which is never \<^verbatim>\<open>nil\<close> there; it then reports at \<^verbatim>\<open>typ.Pos()\<close> and \<^verbatim>\<open>typ.End()\<close> and
  reads \<^verbatim>\<open>innerFloat.Name\<close>, which panics when \<^verbatim>\<open>innerFloat\<close> is \<^verbatim>\<open>nil\<close>.
\<close>

fun typeSpecBody :: "Settings \<Rightarrow> spec \<Rightarrow> outcome" where
  "typeSpecBody settings (TypeSpec specName typeParams specType) =
     (if \<not> isSuspicious (Names settings) (Name specName) then Inr ([], True)
      else
        (case specType of
           IdentExpr typ \<Rightarrow>
             (case getInnerFloat (Some (IdentExpr typ)) of
                Some typ' \<Rightarrow> Inr ([reportIdent aliasMessage typ'], False)
              | None \<Rightarrow> Inr ([], False))
         | ArrayType lbrack len elt \<Rightarrow>
             (case getInnerFloat (Some (ArrayType lbrack len elt)) of
                Some innerFloat \<Rightarrow>
                  Inr ([\<lparr>Pos = lbrack, End = exprEnd (ArrayType lbrack len elt),
                          Category = ''floatmoney'',
                          Message = aliasMessage (Name innerFloat)\<rparr>], False)
              | None \<Rightarrow> Inl NilPointerDereference)
         | StructType fieldList e \<Rightarrow> forEach structFieldBody fieldList
         | _ \<Rightarrow> Inr ([], False)))"
| "typeSpecBody settings spec = Inl InterfaceConversion"

text \<open>
  The bodies of the loops over the parameters and over the results of a function
  declaration named \<open>funcName\<close>.
\<close>

fun paramBody :: "Settings \<Rightarrow> string \<Rightarrow> field \<Rightarrow> outcome" where
  "paramBody settings funcName (Field fieldNames fieldType tag) =
     (case getInnerFloat fieldType of
        None \<Rightarrow> Inr ([], True)
      | Some typ \<Rightarrow>
          (if isSuspicious (Names settings) funcName
              \<or> intersects (Names settings) (map Name fieldNames)
           then Inr ([reportIdent parameterMessage typ], False)
           else Inr ([], False)))"

fun resultBody :: "Settings \<Rightarrow> string \<Rightarrow> field \<Rightarrow> outcome" where
  "resultBody settings funcName (Field fieldNames fieldType tag) =
     (case getInnerFloat fieldType of
        None \<Rightarrow> Inr ([], True)
      | Some typ \<Rightarrow>
          (if isSuspicious (Names settings) funcName
              \<or> intersects (Names settings) (map Name fieldNames)
           then Inr ([reportIdent returnValueMessage typ], False)
           else Inr ([], False)))"

text \<open>\<^verbatim>\<open>if list != nil { for _, field := range list.List { body } }\<close>.\<close>

fun forEachField :: "(field \<Rightarrow> outcome) \<Rightarrow> field list option \<Rightarrow> outcome" where
  "forEachField body None = Inr ([], False)"
| "forEachField body (Some fieldList) = forEach body fieldList"

text \<open>
  Two statements in sequence: the second runs unless the first panicked or returned.
\<close>

definition andThen :: "outcome \<Rightarrow> outcome \<Rightarrow> outcome" where
  "andThen first second =
     (case first of
        Inl p \<Rightarrow> Inl p
      | Inr (ds, True) \<Rightarrow> Inr (ds, True)
      | Inr (ds, False) \<Rightarrow>
          (case second of
             Inl p \<Rightarrow> Inl p
           | Inr (ds', returned) \<Rightarrow> Inr (ds @ ds', returned)))"

text \<open>
  The callback, by the cases of its type switch: a general declaration (by its
  token: \<^verbatim>\<open>VAR\<close> falls through to \<^verbatim>\<open>CONST\<close>), a function declaration, a field. Any
  other node, the \<^verbatim>\<open>nil\<close> that \<^verbatim>\<open>ast.Inspect\<close> passes after the children of a node
  included, reaches no case. Every path that does not panic returns \<^verbatim>\<open>true\<close>, so the
  result keeps only the diagnostics.
\<close>

fun inspectNode :: "Settings \<Rightarrow> strconv \<Rightarrow> node \<Rightarrow> outcome" where
  "inspectNode settings sc (DeclNode (GenDecl tok specs)) =
     (case tok of
        Tok_VAR \<Rightarrow> forEach (valueSpecBody settings sc) specs
      | Tok_CONST \<Rightarrow> forEach (valueSpecBody settings sc) specs
      | Tok_TYPE \<Rightarrow> forEach (typeSpecBody settings) specs
      | _ \<Rightarrow> Inr ([], True))"
| "inspectNode settings sc (DeclNode (FuncDecl recv funcName funcType body)) =
     (case funcType of
        None \<Rightarrow> Inr ([], True)
      | Some (FuncType e typeParams params results) \<Rightarrow>
          andThen (forEachField (paramBody settings (Name funcName)) params)
                  (forEachField (resultBody settings (Name funcName)) results))"
| "inspectNode settings sc (FieldNode (Field fieldNames fieldType tag)) =
     (case getInnerFloat fieldType of
        None \<Rightarrow> Inr ([], True)
      | Some typ \<Rightarrow>
          (if intersects (Names settings)
                (map Name fieldNames @ (case tag of None \<Rightarrow> [] | Some t \<Rightarrow> [Value t]))
           then Inr ([reportIdent fieldMessage typ], False)
           else Inr ([], False)))"
| "inspectNode settings sc n = Inr ([], False)"

definition callback :: "Settings \<Rightarrow> strconv \<Rightarrow> node \<Rightarrow> panic + diagnostic list" where
  "callback settings sc n = map_sum id fst (inspectNode settings sc n)"

subsection \<open>The traversal\<close>

text \<open>
  \<^verbatim>\<open>ast.Inspect(file, f)\<close> calls \<^verbatim>\<open>f\<close> on the nodes of the file in depth-first order and
  descends into the children of a node when \<^verbatim>\<open>f\<close> returns \<^verbatim>\<open>true\<close>, which the callback
  always does. The functions below list the nodes in the order of the calls; the
  children of each node are those of \<^verbatim>\<open>ast.Walk\<close>, in its order.
\<close>

fun walkExpr :: "expr \<Rightarrow> node list"
  and walkField :: "field \<Rightarrow> node list"
  and walkFieldList :: "field list \<Rightarrow> node list"
  and walkFuncType :: "func_type \<Rightarrow> node list"
  and walkSpec :: "spec \<Rightarrow> node list"
  and walkDecl :: "decl \<Rightarrow> node list"
  and walkNode :: "node \<Rightarrow> node list"
where
  "walkExpr (IdentExpr x) = [ExprNode (IdentExpr x)]"
| "walkExpr (BasicLitExpr x) = [ExprNode (BasicLitExpr x)]"
| "walkExpr (ArrayType lbrack len elt) =
     ExprNode (ArrayType lbrack len elt)
     # (case len of None \<Rightarrow> [] | Some l \<Rightarrow> walkExpr l) @ walkExpr elt"
| "walkExpr (StructType fieldList e) =
     ExprNode (StructType fieldList e) # walkFieldList fieldList"
| "walkExpr (FuncTypeExpr t) = walkFuncType t"
| "walkExpr (OtherExpr e children) =
     ExprNode (OtherExpr e children) # concat (map walkNode children)"
| "walkField (Field fieldNames fieldType tag) =
     FieldNode (Field fieldNames fieldType tag)
     # map (\<lambda>x. ExprNode (IdentExpr x)) fieldNames
     @ (case fieldType of None \<Rightarrow> [] | Some t \<Rightarrow> walkExpr t)
     @ (case tag of None \<Rightarrow> [] | Some t \<Rightarrow> [ExprNode (BasicLitExpr t)])"
| "walkFieldList fieldList = FieldListNode fieldList # concat (map walkField fieldList)"
| "walkFuncType (FuncType e typeParams params results) =
     ExprNode (FuncTypeExpr (FuncType e typeParams params results))
     # (case typeParams of None \<Rightarrow> [] | Some l \<Rightarrow> walkFieldList l)
     @ (case params of None \<Rightarrow> [] | Some l \<Rightarrow> walkFieldList l)
     @ (case results of None \<Rightarrow> [] | Some l \<Rightarrow> walkFieldList l)"
| "walkSpec (ImportSpec specName path) =
     SpecNode (ImportSpec specName path)
     # (case specName of None \<Rightarrow> [] | Some x \<Rightarrow> [ExprNode (IdentExpr x)])
     @ [ExprNode (BasicLitExpr path)]"
| "walkSpec (ValueSpec specNames specType values) =
     SpecNode (ValueSpec specNames specType values)
     # map (\<lambda>x. ExprNode (IdentExpr x)) specNames
     @ (case specType of None \<Rightarrow> [] | Some t \<Rightarrow> walkExpr t)
     @ concat (map walkExpr values)"
| "walkSpec (TypeSpec specName typeParams specType) =
     SpecNode (TypeSpec specName typeParams specType)
     # ExprNode (IdentExpr specName)
     # (case typeParams of None \<Rightarrow> [] | Some l \<Rightarrow> walkFieldList l)
     @ walkExpr specType"
| "walkDecl BadDecl = [DeclNode BadDecl]"
| "walkDecl (GenDecl tok specs) =
     DeclNode (GenDecl tok specs) # concat (map walkSpec specs)"
| "walkDecl (FuncDecl recv funcName funcType body) =
     DeclNode (FuncDecl recv funcName funcType body)
     # (case recv of None \<Rightarrow> [] | Some l \<Rightarrow> walkFieldList l)
     @ [ExprNode (IdentExpr funcName)]
     @ (case funcType of None \<Rightarrow> [] | Some t \<Rightarrow> walkFuncType t)
     @ (case body of None \<Rightarrow> [] | Some b \<Rightarrow> walkNode b)"
| "walkNode (ExprNode x) = walkExpr x"
| "walkNode (FieldNode x) = walkField x"
| "walkNode (FieldListNode x) = walkFieldList x"
| "walkNode (SpecNode x) = walkSpec x"
| "walkNode (DeclNode x) = walkDecl x"
| "walkNode (OtherNode children) = OtherNode children # concat (map walkNode children)"

text \<open>
  The nodes of a file below the \<^verbatim>\<open>*ast.File\<close> node itself, for which the callback has
  no case: the package name, then the declarations.
\<close>

fun walkFile :: "ast_file \<Rightarrow> node list" where
  "walkFile (File packageName decls) =
     ExprNode (IdentExpr packageName) # concat (map walkDecl decls)"

text \<open>The calls of the callback on a sequence of nodes, up to the first panic.\<close>

fun visitAll :: "(node \<Rightarrow> panic + diagnostic list) \<Rightarrow> node list \<Rightarrow> panic + diagnostic list"
where
  "visitAll f [] = Inr []"
| "visitAll f (n # ns) =
     (case f n of
        Inl p \<Rightarrow> Inl p
      | Inr ds \<Rightarrow> (case visitAll f ns of Inl p \<Rightarrow> Inl p | Inr ds' \<Rightarrow> Inr (ds @ ds')))"

text \<open>
  \<^verbatim>\<open>
  func (f *FloatMoney) run(pass *analysis.Pass) (any, error) {
      for _, file := range pass.Files {
          ast.Inspect(file, func(n ast.Node) bool { ... })
      }
      return nil, nil
  }
  \<close>
  The result is the sequence of diagnostics handed to \<^verbatim>\<open>pass.Report\<close>, or the panic.
\<close>

definition run :: "Settings \<Rightarrow> strconv \<Rightarrow> ast_file list \<Rightarrow> panic + diagnostic list" where
  "run settings sc files = visitAll (callback settings sc) (concat (map walkFile files))"

subsection \<open>Well-formed trees\<close>

text \<open>
  \<^verbatim>\<open>go/ast\<close> documents the relation between the token of a \<^verbatim>\<open>GenDecl\<close> and its specs:
  \<^verbatim>\<open>token.IMPORT\<close> with \<^verbatim>\<open>*ImportSpec\<close>, \<^verbatim>\<open>token.CONST\<close> and \<^verbatim>\<open>token.VAR\<close> with
  \<^verbatim>\<open>*ValueSpec\<close>, \<^verbatim>\<open>token.TYPE\<close> with \<^verbatim>\<open>*TypeSpec\<close>; and a function declaration has
  its \<^verbatim>\<open>Type\<close>. A file is valid when every node that \<^verbatim>\<open>ast.Inspect\<close> visits keeps this.
\<close>

fun isImportSpec :: "spec \<Rightarrow> bool" where
  "isImportSpec (ImportSpec specName path) = True"
| "isImportSpec s = False"

fun isValueSpec :: "spec \<Rightarrow> bool" where
  "isValueSpec (ValueSpec specNames specType values) = True"
| "isValueSpec s = False"

fun isTypeSpec :: "spec \<Rightarrow> bool" where
  "isTypeSpec (TypeSpec specName typeParams specType) = True"
| "isTypeSpec s = False"

fun validNode :: "node \<Rightarrow> bool" where
  "validNode (DeclNode (GenDecl tok specs)) =
     (case tok of
        Tok_IMPORT \<Rightarrow> list_all isImportSpec specs
      | Tok_CONST \<Rightarrow> list_all isValueSpec specs
      | Tok_TYPE \<Rightarrow> list_all isTypeSpec specs
      | Tok_VAR \<Rightarrow> list_all isValueSpec specs
      | _ \<Rightarrow> False)"
| "validNode (DeclNode (FuncDecl recv funcName funcType body)) = (funcType \<noteq> None)"
| "validNode n = True"

definition validFile :: "ast_file \<Rightarrow> bool" where
  "validFile f = list_all validNode (walkFile f)"

subsection \<open>The function rule, as a specification\<close>

text \<open>
  What the two loops of the function-declaration case compute, written with list
  functions for comparison with the callback: a field resolves when its type is a
  float or an array of floats; it is suspicious when the function name or one of
  its own names is; the fields examined are the longest prefix of the list in which
  every field resolves, and each suspicious one among them is reported once.
\<close>

definition fieldResolves :: "field \<Rightarrow> bool" where
  "fieldResolves f =
     (case f of Field fieldNames fieldType tag \<Rightarrow> getInnerFloat fieldType \<noteq> None)"

definition fieldSuspicious :: "Settings \<Rightarrow> string \<Rightarrow> field \<Rightarrow> bool" where
  "fieldSuspicious settings funcName f =
     (case f of Field fieldNames fieldType tag \<Rightarrow>
        isSuspicious (Names settings) funcName
        \<or> intersects (Names settings) (map Name fieldNames))"

definition fieldReport :: "(string \<Rightarrow> string) \<Rightarrow> field \<Rightarrow> diagnostic list" where
  "fieldReport message f =
     (case f of Field fieldNames fieldType tag \<Rightarrow>
        (case getInnerFloat fieldType of
           None \<Rightarrow> []
         | Some resolved \<Rightarrow> [reportIdent message resolved]))"

definition examined ::
  "Settings \<Rightarrow> string \<Rightarrow> (string \<Rightarrow> string) \<Rightarrow> field list \<Rightarrow> diagnostic list" where
  "examined settings funcName message fs =
     concat (map (fieldReport message)
       (filter (fieldSuspicious settings funcName) (takeWhile fieldResolves fs)))"

definition fieldsOf :: "field list option \<Rightarrow> field list" where
  "fieldsOf l = (case l of None \<Rightarrow> [] | Some fs \<Rightarrow> fs)"

subsection \<open>Example inputs\<close>

text \<open>
  Parser answers for the closed examples: the integer parse accepts the text
  \<^verbatim>\<open>100\<close> and nothing else, the float parse the texts \<^verbatim>\<open>100\<close> and \<^verbatim>\<open>100.0\<close> and nothing
  else. On \<^verbatim>\<open>100\<close>, \<^verbatim>\<open>100.0\<close> and \<^verbatim>\<open>abc\<close> these are the answers of the Go library.
\<close>

definition sampleParsers :: strconv where
  "sampleParsers =
     \<lparr>ParseInt_ok = (\<lambda>s. s = ''100''),
      ParseFloat_ok = (\<lambda>s. s = ''100'' \<or> s = ''100.0'')\<rparr>"

text \<open>
  The trees of small source files, as \<^verbatim>\<open>go/parser\<close> builds them. A position is the
  base of the file in the file set plus the byte offset; the base of the first file
  is 1. Each file starts with \<^verbatim>\<open>package p\<close> and an empty line, and its declaration
  follows, written on one line with single spaces:

  \<^item> \<open>priceStringsFile\<close>: \<^verbatim>\<open>type Price []string\<close>
  \<^item> \<open>priceFloatsFile\<close>: \<^verbatim>\<open>type Price []float64\<close>
  \<^item> \<open>amountFile\<close>: \<^verbatim>\<open>type Amount struct { Value float64; Currency string }\<close>, one field
    on a line, each after a tab
  \<^item> \<open>convertFile\<close>: \<^verbatim>\<open>func Convert(money float64) int\<close>
  \<^item> \<open>moneyConvertFile\<close>: \<^verbatim>\<open>func MoneyConvert(x float64) int\<close>
\<close>

definition priceStringsFile :: "int \<Rightarrow> ast_file" where
  "priceStringsFile base = File (Ident (base + 8) ''p'')
     [GenDecl Tok_TYPE [TypeSpec (Ident (base + 16) ''Price'') None
        (ArrayType (base + 22) None (IdentExpr (Ident (base + 24) ''string'')))]]"

definition priceFloatsFile :: "int \<Rightarrow> ast_file" where
  "priceFloatsFile base = File (Ident (base + 8) ''p'')
     [GenDecl Tok_TYPE [TypeSpec (Ident (base + 16) ''Price'') None
        (ArrayType (base + 22) None (IdentExpr (Ident (base + 24) ''float64'')))]]"

definition amountFile :: "int \<Rightarrow> ast_file" where
  "amountFile base = File (Ident (base + 8) ''p'')
     [GenDecl Tok_TYPE [TypeSpec (Ident (base + 16) ''Amount'') None
        (StructType
           [Field [Ident (base + 33) ''Value'']
              (Some (IdentExpr (Ident (base + 39) ''float64''))) None,
            Field [Ident (base + 48) ''Currency'']
              (Some (IdentExpr (Ident (base + 57) ''string''))) None]
           (base + 65))]]"

definition convertFile :: "int \<Rightarrow> ast_file" where
  "convertFile base = File (Ident (base + 8) ''p'')
     [FuncDecl None (Ident (base + 16) ''Convert'')
        (Some (FuncType (base + 42) None
           (Some [Field [Ident (base + 24) ''money'']
                    (Some (IdentExpr (Ident (base + 30) ''float64''))) None])
           (Some [Field [] (Some (IdentExpr (Ident (base + 39) ''int''))) None])))
        None]"

definition moneyConvertFile :: "int \<Rightarrow> ast_file" where
  "moneyConvertFile base = File (Ident (base + 8) ''p'')
     [FuncDecl None (Ident (base + 16) ''MoneyConvert'')
        (Some (FuncType (base + 43) None
           (Some [Field [Ident (base + 29) ''x'']
                    (Some (IdentExpr (Ident (base + 31) ''float64''))) None])
           (Some [Field [] (Some (IdentExpr (Ident (base + 40) ''int''))) None])))
        None]"

text \<open>
  Three function declarations, at the positions they have in a first file after
  \<^verbatim>\<open>package p\<close> and an empty line:

  \<^item> \<open>moneyTotalDecl\<close>: \<^verbatim>\<open>func MoneyTotal(a float64, b float64)\<close>
  \<^item> \<open>moneySplitDecl\<close>: \<^verbatim>\<open>func MoneySplit(a float64, b float64) (float64, error)\<close>
  \<^item> \<open>moneyRateDecl\<close>: \<^verbatim>\<open>func MoneyRate(a float64, s string, b float64) float64\<close>
\<close>

definition moneyTotalDecl :: decl where
  "moneyTotalDecl =
     FuncDecl None (Ident 17 ''MoneyTotal'')
        (Some (FuncType 49 None
           (Some [Field [Ident 28 ''a''] (Some (IdentExpr (Ident 30 ''float64''))) None,
                  Field [Ident 39 ''b''] (Some (IdentExpr (Ident 41 ''float64''))) None])
           None))
        None"

definition moneySplitDecl :: decl where
  "moneySplitDecl =
     FuncDecl None (Ident 17 ''MoneySplit'')
        (Some (FuncType 66 None
           (Some [Field [Ident 28 ''a''] (Some (IdentExpr (Ident 30 ''float64''))) None,
                  Field [Ident 39 ''b''] (Some (IdentExpr (Ident 41 ''float64''))) None])
           (Some [Field [] (Some (IdentExpr (Ident 51 ''float64''))) None,
                  Field [] (Some (IdentExpr (Ident 60 ''error''))) None])))
        None"

definition moneyRateDecl :: decl where
  "moneyRateDecl =
     FuncDecl None (Ident 17 ''MoneyRate'')
        (Some (FuncType 66 None
           (Some ([Field [Ident 27 ''a''] (Some (IdentExpr (Ident 29 ''float64''))) None]
                  @ Field [Ident 38 ''s''] (Some (IdentExpr (Ident 40 ''string''))) None
                  # [Field [Ident 48 ''b''] (Some (IdentExpr (Ident 50 ''float64''))) None]))
           (Some [Field [] (Some (IdentExpr (Ident 59 ''float64''))) None])))
        None"

section \<open>Properties\<close>

subsection \<open>Evaluation and auxiliary facts\<close>

lemmas evalString = ToLower_def lowerByte_def char_of_def bit_Suc_0_iff isFloatTypeName_def

lemmas evalRun = run_def callback_def andThen_def identPos_def identEnd_def evalString




lemma intersects_Nil: "intersects [] search = False"
  by (induction search) simp_all

text \<open>A loop whose body never reports, or reports nothing where it does not panic.\<close>

lemma forEach_silent:
  "list_all (\<lambda>x. \<exists>returned. body x = Inr ([], returned)) xs
   \<Longrightarrow> \<exists>returned. forEach body xs = Inr ([], returned)"
proof (induction xs)
  case Nil
  show ?case by auto
next
  case (Cons x xs)
  then obtain r where r: "body x = Inr ([], r)" by auto
  from Cons obtain r' where r': "forEach body xs = Inr ([], r')" by auto
  show ?case by (cases r) (auto simp: r r')
qed

lemma forEach_no_reports:
  "list_all (\<lambda>x. \<forall>ds returned. body x = Inr (ds, returned) \<longrightarrow> ds = []) xs
   \<Longrightarrow> forEach body xs = Inr (ds, returned) \<Longrightarrow> ds = []"
proof (induction xs arbitrary: ds returned)
  case Nil
  then show ?case by simp
next
  case (Cons x xs)
  then show ?case
    by (auto split: sum.splits prod.splits bool.splits)
qed

lemma visitAll_silent:
  "list_all (\<lambda>n. f n = Inr []) ns \<Longrightarrow> visitAll f ns = Inr []"
  by (induction ns) simp_all

lemma visitAll_no_reports:
  "list_all (\<lambda>n. \<forall>ds. f n = Inr ds \<longrightarrow> ds = []) ns \<Longrightarrow> visitAll f ns = Inr ds \<Longrightarrow> ds = []"
  by (induction ns arbitrary: ds) (auto split: sum.splits)

subsection \<open>The callback under an empty list of names\<close>

lemma valueSpecBody_empty:
  "Names settings = [] \<Longrightarrow> valueSpecBody settings sc s = Inr (ds, returned) \<Longrightarrow> ds = []"
  by (cases s) (auto simp: intersects_Nil split: option.splits)

lemma valueSpecBody_empty_valid:
  "Names settings = [] \<Longrightarrow> isValueSpec s
   \<Longrightarrow> \<exists>returned. valueSpecBody settings sc s = Inr ([], returned)"
  by (cases s) (auto simp: intersects_Nil split: option.splits)

lemma typeSpecBody_empty:
  "Names settings = [] \<Longrightarrow> typeSpecBody settings s = Inr (ds, returned) \<Longrightarrow> ds = []"
  by (cases s) auto

lemma typeSpecBody_empty_valid:
  "Names settings = [] \<Longrightarrow> isTypeSpec s
   \<Longrightarrow> \<exists>returned. typeSpecBody settings s = Inr ([], returned)"
  by (cases s) auto

lemma paramBody_empty:
  "Names settings = [] \<Longrightarrow> \<exists>returned. paramBody settings fn f = Inr ([], returned)"
  by (cases f) (auto simp: intersects_Nil split: option.splits)

lemma resultBody_empty:
  "Names settings = [] \<Longrightarrow> \<exists>returned. resultBody settings fn f = Inr ([], returned)"
  by (cases f) (auto simp: intersects_Nil split: option.splits)

lemma forEachField_empty:
  assumes "\<And>f. \<exists>returned. body f = Inr ([], returned)"
  shows "\<exists>returned. forEachField body l = Inr ([], returned)"
proof (cases l)
  case None
  then show ?thesis by auto
next
  case (Some fs)
  have "list_all (\<lambda>x. \<exists>returned. body x = Inr ([], returned)) fs"
    using assms by (simp add: list_all_iff)
  then show ?thesis using Some forEach_silent by simp
qed

lemma inspectNode_FuncDecl_empty:
  assumes "Names settings = []"
  shows "\<exists>returned. inspectNode settings sc (DeclNode (FuncDecl recv funcName funcType body))
           = Inr ([], returned)"
proof (cases funcType)
  case None
  then show ?thesis by auto
next
  case (Some t)
  obtain e tps ps rs where t: "t = FuncType e tps ps rs" by (cases t)
  obtain r1 where r1: "forEachField (paramBody settings (Name funcName)) ps = Inr ([], r1)"
    using forEachField_empty [of "paramBody settings (Name funcName)" ps]
      paramBody_empty [OF assms] by blast
  obtain r2 where r2: "forEachField (resultBody settings (Name funcName)) rs = Inr ([], r2)"
    using forEachField_empty [of "resultBody settings (Name funcName)" rs]
      resultBody_empty [OF assms] by blast
  show ?thesis by (cases r1) (auto simp: Some t andThen_def r1 r2)
qed

lemma inspectNode_Field_empty:
  assumes "Names settings = []"
  shows "\<exists>returned. inspectNode settings sc (FieldNode f) = Inr ([], returned)"
  using assms by (cases f) (auto simp: intersects_Nil split: option.splits)

lemma inspectNode_GenDecl_empty:
  assumes "Names settings = []"
    and "inspectNode settings sc (DeclNode (GenDecl tok specs)) = Inr (ds, returned)"
  shows "ds = []"
proof -
  have v: "list_all (\<lambda>x. \<forall>ds returned. valueSpecBody settings sc x = Inr (ds, returned)
             \<longrightarrow> ds = []) specs"
    using valueSpecBody_empty [OF assms(1)] by (auto simp: list_all_iff)
  have t: "list_all (\<lambda>x. \<forall>ds returned. typeSpecBody settings x = Inr (ds, returned)
             \<longrightarrow> ds = []) specs"
    using typeSpecBody_empty [OF assms(1)] by (auto simp: list_all_iff)
  show ?thesis
    using assms(2) forEach_no_reports [OF v] forEach_no_reports [OF t]
    by (cases tok) auto
qed

lemma inspectNode_GenDecl_empty_valid:
  assumes "Names settings = []" and "validNode (DeclNode (GenDecl tok specs))"
  shows "\<exists>returned. inspectNode settings sc (DeclNode (GenDecl tok specs)) = Inr ([], returned)"
proof -
  have v: "list_all isValueSpec specs \<Longrightarrow>
      list_all (\<lambda>x. \<exists>returned. valueSpecBody settings sc x = Inr ([], returned)) specs"
    using valueSpecBody_empty_valid [OF assms(1)] by (auto simp: list_all_iff)
  have t: "list_all isTypeSpec specs \<Longrightarrow>
      list_all (\<lambda>x. \<exists>returned. typeSpecBody settings x = Inr ([], returned)) specs"
    using typeSpecBody_empty_valid [OF assms(1)] by (auto simp: list_all_iff)
  show ?thesis
    using assms(2) forEach_silent [OF v] forEach_silent [OF t]
    by (cases tok) auto
qed

lemma callback_empty:
  assumes "Names settings = []" and "callback settings sc n = Inr ds"
  shows "ds = []"
proof -
  from assms(2) obtain returned where i: "inspectNode settings sc n = Inr (ds, returned)"
    by (cases "inspectNode settings sc n") (auto simp: callback_def)
  show ?thesis
  proof (cases n)
    case (DeclNode d)
    show ?thesis
    proof (cases d)
      case BadDecl
      then show ?thesis using i DeclNode by simp
    next
      case (GenDecl tok specs)
      then show ?thesis using i DeclNode inspectNode_GenDecl_empty [OF assms(1)] by simp
    next
      case (FuncDecl recv funcName funcType body)
      then show ?thesis
        using i DeclNode
          inspectNode_FuncDecl_empty [OF assms(1), of sc recv funcName funcType body]
        by auto
    qed
  next
    case (FieldNode f)
    then show ?thesis using i inspectNode_Field_empty [OF assms(1), of sc f] by auto
  qed (use i in simp_all)
qed

lemma callback_empty_valid:
  assumes "Names settings = []" and "validNode n"
  shows "callback settings sc n = Inr []"
proof (cases n)
  case (DeclNode d)
  show ?thesis
  proof (cases d)
    case BadDecl
    then show ?thesis using DeclNode by (simp add: callback_def)
  next
    case (GenDecl tok specs)
    then show ?thesis
      using DeclNode assms(2) inspectNode_GenDecl_empty_valid [OF assms(1), of tok specs sc]
      by (auto simp: callback_def)
  next
    case (FuncDecl recv funcName funcType body)
    then show ?thesis
      using DeclNode inspectNode_FuncDecl_empty [OF assms(1), of sc recv funcName funcType body]
      by (auto simp: callback_def)
  qed
next
  case (FieldNode f)
  then show ?thesis
    using inspectNode_Field_empty [OF assms(1), of sc f] by (auto simp: callback_def)
qed (simp_all add: callback_def)

subsection \<open>The loops of the function-declaration case\<close>

lemma forEach_paramBody:
  "forEach (paramBody settings fn) fs =
     Inr (examined settings fn parameterMessage fs, \<not> list_all fieldResolves fs)"
proof (induction fs)
  case Nil
  show ?case by (simp add: examined_def)
next
  case (Cons f fs)
  obtain ns t tag where f: "f = Field ns t tag" by (cases f)
  show ?case
  proof (cases "getInnerFloat t")
    case None
    then show ?thesis by (simp add: f examined_def fieldResolves_def)
  next
    case (Some resolved)
    then show ?thesis using Cons.IH
      by (simp add: f examined_def fieldResolves_def fieldSuspicious_def fieldReport_def)
  qed
qed

lemma forEach_resultBody:
  "forEach (resultBody settings fn) fs =
     Inr (examined settings fn returnValueMessage fs, \<not> list_all fieldResolves fs)"
proof (induction fs)
  case Nil
  show ?case by (simp add: examined_def)
next
  case (Cons f fs)
  obtain ns t tag where f: "f = Field ns t tag" by (cases f)
  show ?case
  proof (cases "getInnerFloat t")
    case None
    then show ?thesis by (simp add: f examined_def fieldResolves_def)
  next
    case (Some resolved)
    then show ?thesis using Cons.IH
      by (simp add: f examined_def fieldResolves_def fieldSuspicious_def fieldReport_def)
  qed
qed

lemma forEachField_eq: "forEachField body l = forEach body (fieldsOf l)"
  by (cases l) (simp_all add: fieldsOf_def)

lemma inspectNode_FuncDecl:
  "inspectNode settings sc
     (DeclNode (FuncDecl recv funcName (Some (FuncType e typeParams params results)) body)) =
   Inr (examined settings (Name funcName) parameterMessage (fieldsOf params)
        @ (if list_all fieldResolves (fieldsOf params)
           then examined settings (Name funcName) returnValueMessage (fieldsOf results)
           else []),
        \<not> list_all fieldResolves (fieldsOf params)
        \<or> \<not> list_all fieldResolves (fieldsOf results))"
  by (simp add: andThen_def forEachField_eq forEach_paramBody forEach_resultBody)

lemma parameterMessage_neq: "parameterMessage a \<noteq> returnValueMessage b"
  by (simp add: parameterMessage_def returnValueMessage_def)

lemma examined_messages:
  "d \<in> set (examined settings fn message fs) \<Longrightarrow> \<exists>x. Message d = message x"
  by (auto simp: examined_def fieldReport_def reportIdent_def
      split: field.splits option.splits)

lemmas evalExamined =
  examined_def fieldsOf_def fieldResolves_def fieldSuspicious_def fieldReport_def evalString


section \<open>The claims\<close>

subsection \<open>C6: the name matcher\<close>




subsection \<open>C8: one level of array\<close>

text \<open>
  Claim C8. \<open>getInnerFloat\<close> returns an identifier \<open>x\<close> exactly when \<open>x\<close> is named
  \<^verbatim>\<open>float32\<close> or \<^verbatim>\<open>float64\<close> and the type expression is \<open>x\<close> itself or an array whose
  element is \<open>x\<close>; every other shape gives no match, an array of an array of floats
  among them.
\<close>

theorem getInnerFloat_one_level:
  "(getInnerFloat typeExpr = Some x \<longleftrightarrow>
      (typeExpr = Some (IdentExpr x)
       \<or> (\<exists>lbrack len. typeExpr = Some (ArrayType lbrack len (IdentExpr x))))
      \<and> (Name x = ''float32'' \<or> Name x = ''float64''))
   \<and> getInnerFloat (Some (ArrayType lbrack1 len1 (ArrayType lbrack2 len2 elt))) = None"
proof (intro conjI)
  show "getInnerFloat typeExpr = Some x \<longleftrightarrow>
      (typeExpr = Some (IdentExpr x)
       \<or> (\<exists>lbrack len. typeExpr = Some (ArrayType lbrack len (IdentExpr x))))
      \<and> (Name x = ''float32'' \<or> Name x = ''float64'')"
    by (induction typeExpr rule: getInnerFloat.induct) (auto simp: isFloatTypeName_def)
  show "getInnerFloat (Some (ArrayType lbrack1 len1 (ArrayType lbrack2 len2 elt))) = None"
    by simp
qed

text \<open>
  The theorem at \<^verbatim>\<open>float64\<close>, \<^verbatim>\<open>[]float32\<close> and \<^verbatim>\<open>[][]float64\<close>.
\<close>

theorem getInnerFloat_one_level_witness:
  "getInnerFloat (Some (IdentExpr (Ident 5 ''float64''))) = Some (Ident 5 ''float64'')
   \<and> getInnerFloat (Some (ArrayType 5 None (IdentExpr (Ident 7 ''float32''))))
       = Some (Ident 7 ''float32'')
   \<and> getInnerFloat
        (Some (ArrayType 5 None (ArrayType 7 None (IdentExpr (Ident 9 ''float64''))))) = None"
  using getInnerFloat_one_level
          [of "Some (IdentExpr (Ident 5 ''float64''))" "Ident 5 ''float64''" 5 None 7 None
              "IdentExpr (Ident 9 ''float64'')"]
        getInnerFloat_one_level
          [of "Some (ArrayType 5 None (IdentExpr (Ident 7 ''float32'')))" "Ident 7 ''float32''"]
  by simp

subsection \<open>C5: the integer parse comes first\<close>



subsection \<open>C9: the empty list of names\<close>

text \<open>
  Claim C9. When the list of names is empty, the run over valid files reports
  nothing and does not panic; and over any files at all, a run that does not panic
  has reported nothing.
\<close>

theorem empty_watchlist_inert:
  "Names settings = [] \<longrightarrow>
     (list_all validFile files \<longrightarrow> run settings sc files = Inr [])
     \<and> (\<forall>ds. run settings sc files = Inr ds \<longrightarrow> ds = [])"
proof (intro impI conjI allI)
  assume e: "Names settings = []" and v: "list_all validFile files"
  from v have "list_all validNode (concat (map walkFile files))"
    by (auto simp: list_all_iff validFile_def)
  then have "list_all (\<lambda>n. callback settings sc n = Inr []) (concat (map walkFile files))"
    using callback_empty_valid [OF e] by (simp add: list_all_iff)
  then show "run settings sc files = Inr []"
    unfolding run_def by (rule visitAll_silent)
next
  fix ds
  assume e: "Names settings = []" and r: "run settings sc files = Inr ds"
  have "list_all (\<lambda>n. \<forall>ds. callback settings sc n = Inr ds \<longrightarrow> ds = [])
          (concat (map walkFile files))"
    using callback_empty [OF e] by (simp add: list_all_iff)
  then show "ds = []"
    using r unfolding run_def by (rule visitAll_no_reports)
qed

text \<open>
  The theorem at three of the example files, all valid, each of which makes the
  analyzer report or panic under a list of names that matches.
\<close>

theorem empty_watchlist_inert_witness:
  "Names \<lparr>Names = []\<rparr> = []
   \<and> list_all validFile [convertFile 1, amountFile 44, priceStringsFile 111]
   \<and> run \<lparr>Names = []\<rparr> sampleParsers [convertFile 1, amountFile 44, priceStringsFile 111]
       = Inr []"
  using empty_watchlist_inert
          [of "\<lparr>Names = []\<rparr>" "[convertFile 1, amountFile 44, priceStringsFile 111]"
              sampleParsers]
  by (simp add: validFile_def convertFile_def amountFile_def priceStringsFile_def)

subsection \<open>C7: a struct type with a suspicious name\<close>

text \<open>
  Claim C7. With the names \<^verbatim>\<open>["amount"]\<close>, the run over the file that declares only the
  struct type \<^verbatim>\<open>Amount\<close> with the fields \<^verbatim>\<open>Value float64\<close> and \<^verbatim>\<open>Currency string\<close> reports
  exactly one diagnostic, the struct-field one, at the identifier \<^verbatim>\<open>float64\<close> of the
  field \<^verbatim>\<open>Value\<close>: the field \<^verbatim>\<open>Currency\<close> adds nothing and takes nothing away. This
  holds wherever the file lies in the file set and whatever the parsers answer.
\<close>

theorem run_amountFile:
  "run \<lparr>Names = [''amount'']\<rparr> sc [amountFile base] =
     Inr [reportIdent structFieldMessage (Ident (base + 39) ''float64'')]"
  by (simp add: amountFile_def evalRun)

text \<open>The theorem for the first file of a file set, with the diagnostic written out.\<close>

theorem run_amountFile_witness:
  "run \<lparr>Names = [''amount'']\<rparr> sampleParsers [amountFile 1] =
     Inr [\<lparr>Pos = 40, End = 47, Category = ''floatmoney'',
           Message = structFieldMessage ''float64''\<rparr>]"
  using run_amountFile [of sampleParsers 1]
  by (simp add: reportIdent_def identPos_def identEnd_def)

subsection \<open>C2: a function with a float parameter\<close>

text \<open>
  Claim C2, as amended. With the names \<^verbatim>\<open>["money"]\<close>, the run over the file that
  contains only \<^verbatim>\<open>func Convert(money float64) int\<close> reports two diagnostics, both at
  the identifier \<^verbatim>\<open>float64\<close> of the parameter: the parameter diagnostic of the
  function-declaration case, then the diagnostic of the field case, which the
  traversal reaches below the declaration and which matches the name \<^verbatim>\<open>money\<close> again.
  The run over the file that contains only \<^verbatim>\<open>func MoneyConvert(x float64) int\<close> reports
  exactly one diagnostic, the parameter diagnostic at the identifier \<^verbatim>\<open>float64\<close>, with
  the same message, although the name \<^verbatim>\<open>x\<close> is not suspicious.
\<close>

theorem run_convert_files:
  "run \<lparr>Names = [''money'']\<rparr> sc [convertFile base] =
     Inr [reportIdent parameterMessage (Ident (base + 30) ''float64''),
          reportIdent fieldMessage (Ident (base + 30) ''float64'')]
   \<and> run \<lparr>Names = [''money'']\<rparr> sc [moneyConvertFile base] =
     Inr [reportIdent parameterMessage (Ident (base + 31) ''float64'')]"
  by (simp add: convertFile_def moneyConvertFile_def evalRun)

text \<open>The theorem for the first file of a file set: the number of diagnostics of each run.\<close>

theorem run_convert_files_witness:
  "map_sum id length (run \<lparr>Names = [''money'']\<rparr> sampleParsers [convertFile 1]) = Inr 2
   \<and> map_sum id length (run \<lparr>Names = [''money'']\<rparr> sampleParsers [moneyConvertFile 1]) = Inr 1"
  using run_convert_files [of sampleParsers 1]
  by simp

text \<open>
  The claim as stated fails on \<^verbatim>\<open>func Convert(money float64) int\<close>: the run reports two
  diagnostics, not one.
\<close>

theorem run_convertFile_counterexample:
  "run \<lparr>Names = [''money'']\<rparr> sampleParsers [convertFile 1] =
     Inr [\<lparr>Pos = 31, End = 38, Category = ''floatmoney'',
           Message = parameterMessage ''float64''\<rparr>,
          \<lparr>Pos = 31, End = 38, Category = ''floatmoney'',
           Message = fieldMessage ''float64''\<rparr>]"
  by (simp add: convertFile_def reportIdent_def evalRun)

subsection \<open>C3: which fields the function rule examines\<close>

text \<open>
  Claim C3, as amended. At a function declaration the callback examines the
  parameter fields in order up to the first whose type does not resolve to a float
  and, when every parameter field resolves, the result fields in order up to the
  first that does not resolve. Each examined field whose type resolves yields one
  diagnostic when the function name or one of the names of the field is suspicious.
  So the fields after the first do yield diagnostics when the fields before them
  resolve. The callback does not panic there.
\<close>

theorem function_rule_examines_prefix:
  "callback settings sc
     (DeclNode (FuncDecl recv funcName (Some (FuncType e typeParams params results)) body)) =
   Inr (examined settings (Name funcName) parameterMessage (fieldsOf params)
        @ (if list_all fieldResolves (fieldsOf params)
           then examined settings (Name funcName) returnValueMessage (fieldsOf results)
           else []))"
  unfolding callback_def inspectNode_FuncDecl by simp

text \<open>
  The theorem at \<^verbatim>\<open>func MoneySplit(a float64, b float64) (float64, error)\<close>: both
  parameters and the first result are reported, the second result is not a float.
\<close>

theorem function_rule_examines_prefix_witness:
  "callback \<lparr>Names = [''money'']\<rparr> sampleParsers (DeclNode moneySplitDecl) =
     Inr [reportIdent parameterMessage (Ident 30 ''float64''),
          reportIdent parameterMessage (Ident 41 ''float64''),
          reportIdent returnValueMessage (Ident 51 ''float64'')]"
  unfolding moneySplitDecl_def function_rule_examines_prefix
  by (simp add: evalExamined)

text \<open>
  The claim as stated fails on \<^verbatim>\<open>func MoneyTotal(a float64, b float64)\<close>: the second
  parameter yields a diagnostic of the function rule.
\<close>

theorem later_parameter_counterexample:
  "callback \<lparr>Names = [''money'']\<rparr> sampleParsers (DeclNode moneyTotalDecl) =
     Inr [reportIdent parameterMessage (Ident 30 ''float64''),
          reportIdent parameterMessage (Ident 41 ''float64'')]"
  by (simp add: moneyTotalDecl_def evalRun)

subsection \<open>C10: a parameter that is not a float\<close>

text \<open>
  Claim C10. When a parameter field of a function declaration does not resolve to a
  float, the callback returns there: its diagnostics are those of the parameter
  fields before that field, whatever parameters follow and whatever the results are,
  and none of them is a return-value diagnostic.
\<close>

theorem nonfloat_parameter_returns:
  "getInnerFloat badType = None \<longrightarrow>
     callback settings sc (DeclNode (FuncDecl recv funcName
        (Some (FuncType e typeParams (Some (pre @ Field badNames badType badTag # post)) results))
        body))
     = Inr (examined settings (Name funcName) parameterMessage pre)
   \<and> (\<forall>d \<in> set (examined settings (Name funcName) parameterMessage pre).
         \<forall>x. Message d \<noteq> returnValueMessage x)"
proof (intro impI conjI ballI allI)
  assume bad: "getInnerFloat badType = None"
  let ?b = "Field badNames badType badTag"
  have nb: "\<not> fieldResolves ?b" using bad by (simp add: fieldResolves_def)
  have tw: "takeWhile fieldResolves (pre @ ?b # post) = takeWhile fieldResolves pre"
    using nb by (induction pre) simp_all
  show "callback settings sc (DeclNode (FuncDecl recv funcName
        (Some (FuncType e typeParams (Some (pre @ ?b # post)) results)) body))
     = Inr (examined settings (Name funcName) parameterMessage pre)"
    unfolding callback_def inspectNode_FuncDecl
    by (simp add: fieldsOf_def examined_def tw nb)
next
  fix d x
  assume "d \<in> set (examined settings (Name funcName) parameterMessage pre)"
  then obtain y where "Message d = parameterMessage y" using examined_messages by blast
  then show "Message d \<noteq> returnValueMessage x" by (simp add: parameterMessage_neq)
qed

text \<open>
  The theorem at \<^verbatim>\<open>func MoneyRate(a float64, s string, b float64) float64\<close>: only the
  first parameter is reported; the parameter \<^verbatim>\<open>b\<close> and the result are not.
\<close>

theorem nonfloat_parameter_returns_witness:
  "getInnerFloat (Some (IdentExpr (Ident 40 ''string''))) = None
   \<and> callback \<lparr>Names = [''money'']\<rparr> sampleParsers (DeclNode moneyRateDecl) =
       Inr [reportIdent parameterMessage (Ident 29 ''float64'')]"
  using nonfloat_parameter_returns
          [of "Some (IdentExpr (Ident 40 ''string''))" "\<lparr>Names = [''money'']\<rparr>" sampleParsers
              None "Ident 17 ''MoneyRate''" 66 None
              "[Field [Ident 27 ''a''] (Some (IdentExpr (Ident 29 ''float64''))) None]"
              "[Ident 38 ''s'']" None
              "[Field [Ident 48 ''b''] (Some (IdentExpr (Ident 50 ''float64''))) None]"
              "Some [Field [] (Some (IdentExpr (Ident 59 ''float64''))) None]" None]
  by (simp add: moneyRateDecl_def evalExamined)

subsection \<open>C1 and C4: a suspicious array type\<close>

text \<open>
  Claim C1 fails on the code. With the names \<^verbatim>\<open>["price"]\<close>, the run over the valid file
  that contains only \<^verbatim>\<open>type Price []string\<close> panics: in the case of an array type the
  callback tests the array type against \<^verbatim>\<open>nil\<close>, not the result of \<open>getInnerFloat\<close>,
  and then selects the name through that result, which is \<^verbatim>\<open>nil\<close>.
\<close>

theorem run_priceStringsFile_panics:
  "validFile (priceStringsFile base)
   \<and> run \<lparr>Names = [''price'']\<rparr> sc [priceStringsFile base] = Inl NilPointerDereference"
  by (simp add: priceStringsFile_def validFile_def evalRun)

text \<open>The theorem for the first file of a file set.\<close>

theorem run_priceStringsFile_panics_witness:
  "run \<lparr>Names = [''price'']\<rparr> sampleParsers [priceStringsFile 1] = Inl NilPointerDereference"
  using run_priceStringsFile_panics [of 1 sampleParsers]
  by simp

text \<open>
  Claim C4 fails on the code. With the names \<^verbatim>\<open>["price"]\<close>, the run over the file that
  contains only \<^verbatim>\<open>type Price []float64\<close> reports one diagnostic, whose span starts at
  the bracket of the array type, two bytes before the element type \<^verbatim>\<open>float64\<close>, and
  ends where the element type ends.
\<close>

theorem run_priceFloatsFile_span:
  "run \<lparr>Names = [''price'']\<rparr> sc [priceFloatsFile base] =
     Inr [\<lparr>Pos = base + 22, End = base + 31, Category = ''floatmoney'',
           Message = aliasMessage ''float64''\<rparr>]
   \<and> identPos (Ident (base + 24) ''float64'') = base + 24
   \<and> identEnd (Ident (base + 24) ''float64'') = base + 31"
  by (simp add: priceFloatsFile_def evalRun)

text \<open>The theorem for the first file of a file set.\<close>

theorem run_priceFloatsFile_span_witness:
  "map_sum id (map Pos) (run \<lparr>Names = [''price'']\<rparr> sampleParsers [priceFloatsFile 1])
     = Inr [23]
   \<and> identPos (Ident 25 ''float64'') = 25"
  using run_priceFloatsFile_span [of sampleParsers 1]
  by simp

end
